theory Spec2Isabelle
  imports Main
begin

section \<open>The insta-card component (src/insta-card.js)\<close>

text \<open>
  A shallow embedding of the state handling of the \<open>InstaCard\<close> custom element: its
  reactive properties, the browser's \<open>localStorage\<close>, the fetch of a fox image, the
  reaction toggle and the intersection observer's callback. Rendering, styling and
  localisation are not modelled.

  A JavaScript number is a double. The counters are only ever set to \<open>0\<close>, incremented,
  decremented or restored from storage, so the model keeps to the doubles whose value is
  an integer and writes them as that integer; the rounding of \<open>+ 1\<close> and \<open>- 1\<close> is
  modelled (\<open>js_number\<close> below). Fractions, \<open>NaN\<close> and the infinities are not modelled.
\<close>

subsection \<open>Numbers\<close>

text \<open>
  The double nearest to an integer. A double has a significand of 53 bits: every integer
  of magnitude up to \<open>2^53\<close> is a double, and beyond, the doubles are the multiples of
  \<open>ulp m\<close>, the power of two that doubles each time the magnitude \<open>m\<close> passes a power of
  two. \<open>round_nat\<close> rounds to the nearest multiple, and a tie to the multiple with the
  even significand, as IEEE 754 does by default. (The model does not cut the range off
  at \<open>2^1024\<close>.)
\<close>

fun ulp :: "nat \<Rightarrow> nat" where
  "ulp m = (if m < 2 ^ 53 then 1 else 2 * ulp (m div 2))"

declare ulp.simps [simp del]

definition round_nat :: "nat \<Rightarrow> nat" where
  "round_nat m =
     (let u = ulp m; q = m div u; r = m mod u
      in if 2 * r < u then q * u
         else if u < 2 * r then (q + 1) * u
         else if even q then q * u else (q + 1) * u)"

definition js_number :: "int \<Rightarrow> int" where
  "js_number z =
     (if 0 \<le> z then int (round_nat (nat z)) else - int (round_nat (nat (- z))))"

text \<open>\<open>x + y\<close> and \<open>x - y\<close> on doubles: the exact result, rounded.\<close>

definition js_add :: "int \<Rightarrow> int \<Rightarrow> int" where
  "js_add x y = js_number (x + y)"

definition js_sub :: "int \<Rightarrow> int \<Rightarrow> int" where
  "js_sub x y = js_number (x - y)"

subsection \<open>JSON values, stored strings and the platform functions\<close>

text \<open>
  The value \<open>JSON.parse\<close> returns. An object is the list of its own properties, a number
  is a double of integer value.
\<close>

datatype json =
    JNull
  | JBool bool
  | JNum int
  | JStr string
  | JArr "json list"
  | JObj "(string \<times> json) list"

text \<open>
  A string held by \<open>localStorage\<close> or sent as a response body, up to what the source can
  observe of it: whether it is empty (the only falsy string), and what \<open>JSON.parse\<close>
  makes of it. \<open>Empty_text\<close> is the empty string, \<open>Malformed_text\<close> a non-empty string
  that \<open>JSON.parse\<close> rejects, and \<open>Json_text j\<close> a string that \<open>JSON.parse\<close> reads as
  \<open>j\<close>.
\<close>

datatype stored = Empty_text | Malformed_text | Json_text json

text \<open>The exceptions the modelled code can meet.\<close>

datatype js_error =
    Network_error       \<comment> \<open>\<open>fetch\<close> rejects: transport failure\<close>
  | Http_error nat      \<comment> \<open>\<open>throw new Error(`HTTP ${res.status}`)\<close>\<close>
  | Syntax_error        \<comment> \<open>\<open>JSON.parse\<close> or \<open>res.json()\<close> on a malformed string\<close>
  | Type_error          \<comment> \<open>a property read on \<open>null\<close>\<close>

definition JSON_parse :: "stored \<Rightarrow> js_error + json" where
  "JSON_parse t = (case t of Json_text j \<Rightarrow> Inr j | _ \<Rightarrow> Inl Syntax_error)"

definition JSON_stringify :: "json \<Rightarrow> stored" where
  "JSON_stringify j = Json_text j"

text \<open>
  \<open>v.name\<close> for a value \<open>v\<close> that is not \<open>null\<close>, and a name that is none of the
  built-in properties of strings, arrays, numbers and booleans (the source reads
  \<open>likes\<close>, \<open>dislikes\<close>, \<open>userReact\<close>, \<open>saved\<close>, \<open>image\<close> and \<open>link\<close>): \<open>None\<close> is
  \<open>undefined\<close>.
\<close>

definition member :: "json \<Rightarrow> string \<Rightarrow> json option" where
  "member v name = (case v of JObj kvs \<Rightarrow> map_of kvs name | _ \<Rightarrow> None)"

text \<open>\<open>!!v\<close>, JavaScript's truthiness.\<close>

fun truthy :: "json option \<Rightarrow> bool" where
  "truthy None = False"
| "truthy (Some JNull) = False"
| "truthy (Some (JBool b)) = b"
| "truthy (Some (JNum n)) = (n \<noteq> 0)"
| "truthy (Some (JStr x)) = (x \<noteq> [])"
| "truthy (Some (JArr _)) = True"
| "truthy (Some (JObj _)) = True"

text \<open>\<open>v ?? d\<close>: the default replaces \<open>undefined\<close> and \<open>null\<close> only.\<close>

fun nullish :: "json option \<Rightarrow> json \<Rightarrow> json" where
  "nullish None d = d"
| "nullish (Some JNull) d = d"
| "nullish (Some v) d = v"

text \<open>
  The component's properties are typed below as their declarations say (\<open>Number\<close>,
  \<open>String\<close>, \<open>Boolean\<close>). JavaScript would store a value of any type in them; the two
  functions below give \<open>None\<close> for a value the typed property cannot hold, and the model
  then stops (\<open>Untyped\<close> below) instead of converting it.
\<close>

fun as_number :: "json \<Rightarrow> int option" where
  "as_number (JNum n) = Some n"
| "as_number _ = None"

fun as_string :: "json \<Rightarrow> string option" where
  "as_string (JStr x) = Some x"
| "as_string _ = None"

subsection \<open>The component's state\<close>

text \<open>
  The properties of the element (lines 17--68), the observer \<open>_io\<close>, and the two parts of
  the environment it acts on: \<open>localStorage\<close> and the number of requests issued with
  \<open>fetch\<close>. \<open>io\<close> is \<open>None\<close> for \<open>null\<close>, \<open>Some True\<close> for an observer that observes
  the element and \<open>Some False\<close> for a disconnected one.
\<close>

record card =
  title :: string
  image_url :: string       \<comment> \<open>\<open>this.image\<close>\<close>
  link :: string
  author :: string
  channel :: string
  dateTaken :: string
  visible :: bool
  loading :: bool
  error :: string
  likes :: int
  dislikes :: int
  saved :: bool
  userReact :: string
  io :: "bool option"       \<comment> \<open>\<open>this._io\<close>\<close>
  requests :: nat           \<comment> \<open>calls of \<open>fetch(FOX_API)\<close> so far\<close>
  localStorage :: "string \<rightharpoonup> stored"

text \<open>The constructor (lines 39--68); the date and the storage come from the environment.\<close>

definition constructor :: "string \<Rightarrow> (string \<rightharpoonup> stored) \<Rightarrow> card" where
  "constructor now store =
     \<lparr> title = ''Insta Card'', image_url = [], link = [], author = ''RandomFox'',
       channel = ''floof'', dateTaken = now, visible = False, loading = True,
       error = [], likes = 0, dislikes = 0, saved = False, userReact = [],
       io = None, requests = 0, localStorage = store \<rparr>"

text \<open>Line 94: \<open>`insta-card:${this.image || "pending"}`\<close>.\<close>

definition storageKey :: "card \<Rightarrow> string" where
  "storageKey s = ''insta-card:'' @ (if image_url s = [] then ''pending'' else image_url s)"

text \<open>
  Lines 99--108. \<open>getItem\<close> gives \<open>null\<close> or a string, and \<open>if (global)\<close> passes for a
  non-empty string. Every exception of the \<open>try\<close> block is swallowed: the
  \<open>SyntaxError\<close> of \<open>JSON.parse\<close>, and the \<open>TypeError\<close> of \<open>g.saved\<close> when the
  string is the JSON text \<open>null\<close>.
\<close>

definition hydrateFromStorage :: "card \<Rightarrow> card" where
  "hydrateFromStorage s =
     (case localStorage s ''insta-card:global'' of
        None \<Rightarrow> s
      | Some Empty_text \<Rightarrow> s
      | Some t \<Rightarrow>
          (case JSON_parse t of
             Inl _ \<Rightarrow> s
           | Inr JNull \<Rightarrow> s
           | Inr g \<Rightarrow> s\<lparr>saved := truthy (member g ''saved'')\<rparr>))"

text \<open>Lines 110--128.\<close>

definition reaction_record :: "card \<Rightarrow> json" where
  "reaction_record s =
     JObj [(''likes'', JNum (likes s)), (''dislikes'', JNum (dislikes s)),
           (''userReact'', JStr (userReact s)), (''saved'', JBool (saved s))]"

definition global_record :: "card \<Rightarrow> json" where
  "global_record s = JObj [(''saved'', JBool (saved s))]"

definition persist :: "card \<Rightarrow> card" where
  "persist s =
     (let st = (if image_url s \<noteq> []
                then (localStorage s)(storageKey s \<mapsto> JSON_stringify (reaction_record s))
                else localStorage s)
      in s\<lparr>localStorage := st(''insta-card:global'' \<mapsto> JSON_stringify (global_record s))\<rparr>)"

subsection \<open>Interactions\<close>

text \<open>Lines 162--165.\<close>

definition toggleSave :: "card \<Rightarrow> card" where
  "toggleSave s = persist (s\<lparr>saved := \<not> saved s\<rparr>)"

text \<open>
  Lines 166--188; \<open>ty\<close> is the argument \<open>type\<close>. \<open>Math.max\<close> is exact, \<open>- 1\<close> and \<open>+= 1\<close>
  round.
\<close>

definition react :: "string \<Rightarrow> card \<Rightarrow> card" where
  "react ty s =
     persist
       (if userReact s = ty then
          (let s1 = (if ty = ''like''
                     then s\<lparr>likes := max 0 (js_sub (likes s) 1)\<rparr> else s);
               s2 = (if ty = ''dislike''
                     then s1\<lparr>dislikes := max 0 (js_sub (dislikes s1) 1)\<rparr> else s1)
           in s2\<lparr>userReact := []\<rparr>)
        else if ty = ''like'' then
          (let s1 = (if userReact s = ''dislike''
                     then s\<lparr>dislikes := max 0 (js_sub (dislikes s) 1)\<rparr> else s)
           in s1\<lparr>likes := js_add (likes s1) 1, userReact := ''like''\<rparr>)
        else
          (let s1 = (if userReact s = ''like''
                     then s\<lparr>likes := max 0 (js_sub (likes s) 1)\<rparr> else s)
           in s1\<lparr>dislikes := js_add (dislikes s1) 1, userReact := ''dislike''\<rparr>))"

text \<open>The two calls the rendered buttons make: \<open>_react("like")\<close> and \<open>_react("dislike")\<close>.\<close>

datatype kind = Like | Dislike

fun kind_name :: "kind \<Rightarrow> string" where
  "kind_name Like = ''like''"
| "kind_name Dislike = ''dislike''"

subsection \<open>Fetching an image\<close>

text \<open>
  What the two awaited promises of \<open>_fetchFox\<close> give: \<open>fetch\<close> rejects, or resolves to a
  response with a status and a body. \<open>res.ok\<close> is true for a status from 200 to 299.
\<close>

datatype response = Rejected | Resolved nat stored

definition ok :: "nat \<Rightarrow> bool" where
  "ok status = (200 \<le> status \<and> status \<le> 299)"

text \<open>
  How the \<open>try\<close> block ends: normally, or with an exception thrown in the state reached
  so far, or (\<open>Untyped\<close>) at an assignment of a value that the typed property cannot hold.
\<close>

datatype outcome = Normal card | Thrown js_error card | Untyped

text \<open>
  Lines 132--134, up to the first \<open>await\<close>: this part runs at the call of \<open>_fetchFox\<close>.
\<close>

definition fetchFox_begin :: "card \<Rightarrow> card" where
  "fetchFox_begin s = s\<lparr>loading := True, error := [], requests := requests s + 1\<rparr>"

text \<open>
  Lines 137--138: \<open>this.image = data.image; this.link = data.link || "https://randomfox.ca/"\<close>.
  Reading \<open>data.image\<close> throws when the body is the JSON text \<open>null\<close>. An image that is
  missing or not a string, and a truthy link that is not a string, are \<open>Untyped\<close>.
\<close>

definition assign_image :: "json \<Rightarrow> card \<Rightarrow> outcome" where
  "assign_image data s =
     (if data = JNull then Thrown Type_error s
      else
        (case Option.bind (member data ''image'') as_string of
           None \<Rightarrow> Untyped
         | Some img \<Rightarrow>
             (if truthy (member data ''link'')
              then (case Option.bind (member data ''link'') as_string of
                      None \<Rightarrow> Untyped
                    | Some l \<Rightarrow> Normal (s\<lparr>image_url := img, link := l\<rparr>))
              else Normal (s\<lparr>image_url := img, link := ''https://randomfox.ca/''\<rparr>))))"

text \<open>
  Lines 140--151: the reactions stored for \<open>this.image\<close>. \<open>if (prior)\<close> fails for \<open>null\<close>
  and for the empty string. \<open>JSON.parse(prior)\<close> has no handler of its own here: its
  exception, and the one of \<open>p.likes\<close> when the string is the JSON text \<open>null\<close>, leave the
  \<open>try\<close> block before any of the four assignments.
\<close>

definition restore_reactions :: "card \<Rightarrow> outcome" where
  "restore_reactions s =
     (case localStorage s (storageKey s) of
        None \<Rightarrow> Normal (s\<lparr>likes := 0, dislikes := 0, userReact := []\<rparr>)
      | Some Empty_text \<Rightarrow> Normal (s\<lparr>likes := 0, dislikes := 0, userReact := []\<rparr>)
      | Some prior \<Rightarrow>
          (case JSON_parse prior of
             Inl e \<Rightarrow> Thrown e s
           | Inr JNull \<Rightarrow> Thrown Type_error s
           | Inr p \<Rightarrow>
               (case (as_number (nullish (member p ''likes'') (JNum 0)),
                      as_number (nullish (member p ''dislikes'') (JNum 0)),
                      as_string (nullish (member p ''userReact'') (JStr []))) of
                  (Some l, Some d, Some u) \<Rightarrow>
                     Normal (s\<lparr>likes := l, dislikes := d, userReact := u,
                               saved := truthy (member p ''saved'')\<rparr>)
                | _ \<Rightarrow> Untyped)))"

text \<open>Lines 134--151, from the first \<open>await\<close> to the end of the \<open>try\<close> block.\<close>

definition fetchFox_try :: "response \<Rightarrow> card \<Rightarrow> outcome" where
  "fetchFox_try r s =
     (case r of
        Rejected \<Rightarrow> Thrown Network_error s
      | Resolved status body \<Rightarrow>
          (if \<not> ok status then Thrown (Http_error status) s
           else
             (case JSON_parse body of
                Inl e \<Rightarrow> Thrown e s
              | Inr data \<Rightarrow>
                  (case assign_image data s of
                     Normal s1 \<Rightarrow> restore_reactions s1
                   | other \<Rightarrow> other))))"

text \<open>
  Lines 152--158: \<open>catch\<close> sets the message (and logs the exception, which is not
  modelled), \<open>finally\<close> clears \<open>loading\<close> and persists. \<open>None\<close> is \<open>Untyped\<close>.
\<close>

definition fetchFox_resume :: "response \<Rightarrow> card \<Rightarrow> card option" where
  "fetchFox_resume r s =
     (case fetchFox_try r s of
        Normal s1 \<Rightarrow> Some (persist (s1\<lparr>loading := False\<rparr>))
      | Thrown e s1 \<Rightarrow>
          Some (persist (s1\<lparr>error := ''Failed to load fox image.'', loading := False\<rparr>))
      | Untyped \<Rightarrow> None)"

text \<open>
  A whole run of \<open>_fetchFox\<close> that no other event interleaves with, given what the
  network answers.
\<close>

definition fetchFox :: "response \<Rightarrow> card \<Rightarrow> card option" where
  "fetchFox r s = fetchFox_resume r (fetchFox_begin s)"

subsection \<open>The visibility gate\<close>

text \<open>Lines 70--92. \<open>this._io?.disconnect()\<close> does nothing when \<open>_io\<close> is \<open>null\<close>.\<close>

definition connectedCallback :: "card \<Rightarrow> card" where
  "connectedCallback s = s\<lparr>io := Some True\<rparr>"

definition disconnect :: "card \<Rightarrow> card" where
  "disconnect s = s\<lparr>io := map_option (\<lambda>_. False) (io s)\<rparr>"

definition disconnectedCallback :: "card \<Rightarrow> card" where
  "disconnectedCallback s = disconnect s"

text \<open>
  The body of \<open>entries.forEach\<close> (lines 76--81) for an entry whose \<open>isIntersecting\<close> is
  \<open>b\<close>; \<open>activate\<close> is lines 77--80. The call of \<open>_fetchFox\<close> is not awaited: it
  runs up to its first \<open>await\<close>. The callback is modelled whether or not the observer is
  still connected, so that entries queued before a disconnection are covered.
\<close>

definition activate :: "card \<Rightarrow> card" where
  "activate s = disconnect (fetchFox_begin (hydrateFromStorage (s\<lparr>visible := True\<rparr>)))"

definition on_entry :: "bool \<Rightarrow> card \<Rightarrow> card" where
  "on_entry b s = (if b \<and> \<not> visible s then activate s else s)"

text \<open>One call of the observer's callback with its entries, and a sequence of such calls.\<close>

definition intersection_callback :: "bool list \<Rightarrow> card \<Rightarrow> card" where
  "intersection_callback entries s = fold on_entry entries s"

definition intersection_events :: "bool list list \<Rightarrow> card \<Rightarrow> card" where
  "intersection_events calls s = fold intersection_callback calls s"

subsection \<open>The lifetime of a component\<close>

text \<open>
  Everything that runs code of the component after its construction: the two lifecycle
  callbacks, a call of the observer's callback, the settling of a fetch (the part of
  \<open>_fetchFox\<close> after the \<open>await\<close>), and the handlers of the four buttons that change
  state; \<open>_refresh\<close> (lines 202--205) calls \<open>_fetchFox\<close>, which runs up to its \<open>await\<close>.
  \<open>_share\<close> assigns no property and is left out. The events may come in any order: a
  settling is allowed even when no request is pending, which only adds runs.
\<close>

datatype event =
    Connected
  | Disconnected
  | Intersection "bool list"
  | Settled response
  | Save_clicked
  | React_clicked kind
  | Refresh_clicked

fun step :: "event \<Rightarrow> card \<Rightarrow> card option" where
  "step Connected s = Some (connectedCallback s)"
| "step Disconnected s = Some (disconnectedCallback s)"
| "step (Intersection entries) s = Some (intersection_callback entries s)"
| "step (Settled r) s = fetchFox_resume r s"
| "step Save_clicked s = Some (toggleSave s)"
| "step (React_clicked k) s = Some (react (kind_name k) s)"
| "step Refresh_clicked s = Some (fetchFox_begin s)"

text \<open>
  The states a run passes through, one after each event; the list ends where the typed
  model does (\<open>Untyped\<close>).
\<close>

fun trace :: "event list \<Rightarrow> card \<Rightarrow> card list" where
  "trace [] s = []"
| "trace (e # es) s = (case step e s of None \<Rightarrow> [] | Some s' \<Rightarrow> s' # trace es s')"

text \<open>How many times a sequence of truth values goes from false to true.\<close>

fun rises :: "bool list \<Rightarrow> nat" where
  "rises (a # b # xs) = (if \<not> a \<and> b then 1 else 0) + rises (b # xs)"
| "rises xs = 0"

subsection \<open>The reaction state machine, as the specification words it\<close>

text \<open>
  The specification's view of the reaction state: two counters and a reaction that is
  \<open>none\<close> (here \<open>None\<close>), \<open>like\<close> or \<open>dislike\<close>.
\<close>

record reaction_state =
  likeCount :: int
  dislikeCount :: int
  userReaction :: "kind option"

fun other :: "kind \<Rightarrow> kind" where
  "other Like = Dislike"
| "other Dislike = Like"

definition counter :: "kind \<Rightarrow> reaction_state \<Rightarrow> int" where
  "counter k a = (case k of Like \<Rightarrow> likeCount a | Dislike \<Rightarrow> dislikeCount a)"

definition set_counter :: "kind \<Rightarrow> int \<Rightarrow> reaction_state \<Rightarrow> reaction_state" where
  "set_counter k n a = (case k of Like \<Rightarrow> a\<lparr>likeCount := n\<rparr> | Dislike \<Rightarrow> a\<lparr>dislikeCount := n\<rparr>)"

text \<open>Decrement by 1, floored at 0; increment by 1.\<close>

definition decrement :: "kind \<Rightarrow> reaction_state \<Rightarrow> reaction_state" where
  "decrement k a = set_counter k (max 0 (counter k a - 1)) a"

definition increment :: "kind \<Rightarrow> reaction_state \<Rightarrow> reaction_state" where
  "increment k a = set_counter k (counter k a + 1) a"

text \<open>
  The transition function of the specification: toggle-off when the reaction already is
  \<open>k\<close>; otherwise the other counter is decremented if the reaction was the other kind,
  the counter of \<open>k\<close> is incremented and the reaction becomes \<open>k\<close>.
\<close>

definition spec_react :: "kind \<Rightarrow> reaction_state \<Rightarrow> reaction_state" where
  "spec_react k a =
     (if userReaction a = Some k then (decrement k a)\<lparr>userReaction := None\<rparr>
      else (increment k (if userReaction a = Some (other k) then decrement (other k) a else a))
             \<lparr>userReaction := Some k\<rparr>)"

text \<open>
  How a state of the component is read as a state of the specification: \<open>userReact\<close> is
  \<open>'like'\<close>, \<open>'dislike'\<close> or, for \<open>none\<close>, the empty string; any other string is no
  reaction of the user either.
\<close>

definition reaction_of :: "string \<Rightarrow> kind option" where
  "reaction_of x = (if x = ''like'' then Some Like else if x = ''dislike'' then Some Dislike else None)"

fun reaction_name :: "kind option \<Rightarrow> string" where
  "reaction_name None = []"
| "reaction_name (Some k) = kind_name k"

definition abstract :: "card \<Rightarrow> reaction_state" where
  "abstract s = \<lparr> likeCount = likes s, dislikeCount = dislikes s,
                  userReaction = reaction_of (userReact s) \<rparr>"

subsection \<open>Sequences of reactions\<close>

definition reacts :: "kind list \<Rightarrow> card \<Rightarrow> card" where
  "reacts ks s = fold (\<lambda>k. react (kind_name k)) ks s"

text \<open>
  The reaction that stands after the calls \<open>ks\<close>, read off the sequence alone. A call
  \<open>react(k)\<close> made while \<open>k\<close> stands toggles it off; any other call is a reaction, which
  replaces the one before it. The last call, of kind \<open>k\<close>, ends a run of calls of that same
  kind. The first call of the run is a reaction, unless the run is the whole sequence and
  \<open>k\<close> stood at the start, and the calls of the run then alternate. So the most recent
  reaction that has not been toggled off is \<open>k\<close> or there is none, by the parity of the
  run's length.
\<close>

definition standing :: "kind option \<Rightarrow> kind list \<Rightarrow> kind option" where
  "standing r0 ks =
     (if ks = [] then r0
      else
        (let k = last ks;
             run = length (takeWhile (\<lambda>x. x = k) (rev ks));
             stood_at_start = (run = length ks \<and> r0 = Some k)
         in if even run = stood_at_start then Some k else None))"

subsection \<open>Answers of the image API, stored records and example runs\<close>

text \<open>
  The answer the image API documents, \<open>{ image, link? }\<close>, under a given status; a failed
  fetch (transport failure or a status outside 200--299); and the link that line 138
  assigns.
\<close>

definition fox_response :: "nat \<Rightarrow> string \<Rightarrow> string option \<Rightarrow> response" where
  "fox_response status img lnk =
     Resolved status (Json_text (JObj ((''image'', JStr img) #
        (case lnk of None \<Rightarrow> [] | Some l \<Rightarrow> [(''link'', JStr l)]))))"

definition failed :: "response \<Rightarrow> bool" where
  "failed r = (case r of Rejected \<Rightarrow> True | Resolved status body \<Rightarrow> \<not> ok status)"

definition link_or_default :: "string option \<Rightarrow> string" where
  "link_or_default lnk =
     (case lnk of None \<Rightarrow> ''https://randomfox.ca/''
      | Some l \<Rightarrow> if l = [] then ''https://randomfox.ca/'' else l)"

text \<open>
  A stored reaction record that is well formed or partially missing: each field is either
  absent or has the type \<open>_persist\<close> writes.
\<close>

fun field :: "string \<Rightarrow> json option \<Rightarrow> (string \<times> json) list" where
  "field name None = []"
| "field name (Some v) = [(name, v)]"

definition partial_record ::
  "int option \<Rightarrow> int option \<Rightarrow> string option \<Rightarrow> bool option \<Rightarrow> json" where
  "partial_record l d u b =
     JObj (field ''likes'' (map_option JNum l) @ field ''dislikes'' (map_option JNum d) @
           field ''userReact'' (map_option JStr u) @ field ''saved'' (map_option JBool b))"

text \<open>The invariant of the data model that links the reaction to its counter.\<close>

definition reaction_invariant :: "card \<Rightarrow> bool" where
  "reaction_invariant s =
     ((userReact s = ''like'' \<longrightarrow> 1 \<le> likes s) \<and>
      (userReact s = ''dislike'' \<longrightarrow> 1 \<le> dislikes s))"

text \<open>
  Two runs of a component, from its construction over a given storage: it is connected,
  scrolls into view and loads the image \<open>img\<close>; and, after that, the user likes the image
  and asks for a new one, which is \<open>img2\<close>.
\<close>

definition first_load :: "(string \<rightharpoonup> stored) \<Rightarrow> string \<Rightarrow> card option" where
  "first_load store img =
     fetchFox_resume (fox_response 200 img None)
       (intersection_callback [True]
          (connectedCallback (constructor ''2025-01-01T00:00:00.000Z'' store)))"

definition like_then_refresh :: "(string \<rightharpoonup> stored) \<Rightarrow> string \<Rightarrow> string \<Rightarrow> card option" where
  "like_then_refresh store img1 img2 =
     Option.bind (first_load store img1)
       (\<lambda>s. fetchFox (fox_response 200 img2 None) (react ''like'' s))"

section \<open>Properties\<close>

subsection \<open>Auxiliary facts\<close>

lemma ulp_small: "m < 2 ^ 53 \<Longrightarrow> ulp m = 1"
  by (simp add: ulp.simps)

lemma ulp_2_53: "ulp (2 ^ 53) = 2"
  by (subst ulp.simps) (simp add: ulp_small)

lemma ulp_2_53_plus_1: "ulp (2 ^ 53 + 1) = 2"
  by (subst ulp.simps) (simp add: ulp_small)

lemma round_nat_exact: "m \<le> 2 ^ 53 \<Longrightarrow> round_nat m = m"
proof (cases "m < 2 ^ 53")
  case True
  then show ?thesis by (simp add: round_nat_def ulp_small)
next
  case False
  assume "m \<le> 2 ^ 53"
  with False have "m = 2 ^ 53" by simp
  then show ?thesis using ulp_2_53 by (simp add: round_nat_def Let_def)
qed

text \<open>Every integer of magnitude up to \<open>2^53\<close> is a double.\<close>

lemma js_number_exact: "\<bar>z\<bar> \<le> 2 ^ 53 \<Longrightarrow> js_number z = z"
proof (cases "0 \<le> z")
  case True
  assume "\<bar>z\<bar> \<le> 2 ^ 53"
  with True have "nat z \<le> 2 ^ 53" by (simp add: nat_le_iff)
  with True show ?thesis by (simp add: js_number_def round_nat_exact)
next
  case False
  assume "\<bar>z\<bar> \<le> 2 ^ 53"
  with False have "nat (- z) \<le> 2 ^ 53" by (simp add: nat_le_iff)
  with False show ?thesis by (simp add: js_number_def round_nat_exact)
qed

lemma js_number_nonneg: "0 \<le> z \<Longrightarrow> 0 \<le> js_number z"
  by (simp add: js_number_def)

text \<open>\<open>2^53 + 1\<close> is not a double: it lies between two doubles and rounds to \<open>2^53\<close>.\<close>

lemma js_number_2_53_plus_1: "js_number 9007199254740993 = 9007199254740992"
  using ulp_2_53_plus_1 by (simp add: js_number_def round_nat_def Let_def)

lemma step_exact:
  assumes "\<bar>x\<bar> < 2 ^ 53"
  shows "js_add x 1 = x + 1" and "js_sub x 1 = x - 1"
  using assms by (simp_all add: js_add_def js_sub_def js_number_exact)

lemmas run_defs =
  first_load_def like_then_refresh_def fetchFox_def fetchFox_resume_def fetchFox_try_def
  fox_response_def ok_def JSON_parse_def JSON_stringify_def assign_image_def member_def
  restore_reactions_def storageKey_def intersection_callback_def on_entry_def activate_def
  connectedCallback_def constructor_def disconnect_def fetchFox_begin_def
  hydrateFromStorage_def persist_def react_def reaction_record_def global_record_def Let_def
  js_add_def js_sub_def js_number_exact

lemma persist_fields:
  "loading (persist s) = loading s" "error (persist s) = error s"
  "image_url (persist s) = image_url s" "likes (persist s) = likes s"
  "dislikes (persist s) = dislikes s" "userReact (persist s) = userReact s"
  "saved (persist s) = saved s" "link (persist s) = link s"
  "visible (persist s) = visible s" "requests (persist s) = requests s"
  "io (persist s) = io s"
  by (simp_all add: persist_def Let_def)

lemma reaction_of_name: "reaction_of (reaction_name r) = r"
proof (cases r)
  case None
  then show ?thesis by (simp add: reaction_of_def)
next
  case (Some k)
  then show ?thesis by (cases k) (simp_all add: reaction_of_def)
qed

lemma react_nonneg:
  "0 \<le> likes s \<Longrightarrow> 0 \<le> dislikes s \<Longrightarrow>
     0 \<le> likes (react ty s) \<and> 0 \<le> dislikes (react ty s)"
  by (simp add: react_def persist_def Let_def js_add_def js_sub_def js_number_nonneg)

lemma reacts_snoc: "reacts (ks @ [k]) s = react (kind_name k) (reacts ks s)"
  by (simp add: reacts_def)

lemma reacts_nonneg:
  "0 \<le> likes s \<Longrightarrow> 0 \<le> dislikes s \<Longrightarrow>
     0 \<le> likes (reacts ks s) \<and> 0 \<le> dislikes (reacts ks s)"
proof (induction ks rule: rev_induct)
  case Nil
  then show ?case by (simp add: reacts_def)
next
  case (snoc k ks)
  then show ?case
    using react_nonneg [of "reacts ks s" "kind_name k"] by (simp add: reacts_snoc)
qed

lemma userReact_react:
  "userReact (react (kind_name k) s) =
     reaction_name (if reaction_of (userReact s) = Some k then None else Some k)"
  by (cases k) (simp_all add: react_def persist_def Let_def reaction_of_def)

lemma standing_snoc:
  "standing r0 (ks @ [k]) = (if standing r0 ks = Some k then None else Some k)"
proof (cases "ks = []")
  case True
  then show ?thesis by (simp add: standing_def)
next
  case False
  show ?thesis
  proof (cases "last ks = k")
    case True
    with False show ?thesis by (simp add: standing_def Let_def)
  next
    case diff: False
    from False have "rev ks = last ks # rev (butlast ks)"
      by (metis append_butlast_last_id rev.simps(2) rev_swap)
    then have "takeWhile (\<lambda>x. x = k) (rev ks) =
        takeWhile (\<lambda>x. x = k) (last ks # rev (butlast ks))"
      by (rule arg_cong)
    with diff have "takeWhile (\<lambda>x. x = k) (rev ks) = []" by simp
    with False diff show ?thesis by (auto simp add: standing_def Let_def)
  qed
qed

lemma reaction_of_reacts:
  "reaction_of (userReact (reacts ks s)) = standing (reaction_of (userReact s)) ks"
proof (induction ks rule: rev_induct)
  case Nil
  show ?case by (simp add: reacts_def standing_def)
next
  case (snoc k ks)
  then show ?case
    by (simp add: reacts_snoc userReact_react standing_snoc reaction_of_name
        del: reaction_name.simps)
qed

lemma userReact_reacts:
  "ks \<noteq> [] \<Longrightarrow>
     userReact (reacts ks s) = reaction_name (standing (reaction_of (userReact s)) ks)"
proof (induction ks rule: rev_induct)
  case Nil
  then show ?case by simp
next
  case (snoc k ks)
  show ?case
    by (simp only: reacts_snoc userReact_react standing_snoc reaction_of_reacts)
qed

lemma assign_image_fox:
  "assign_image
     (JObj ((''image'', JStr img) # (case lnk of None \<Rightarrow> [] | Some l \<Rightarrow> [(''link'', JStr l)]))) s
   = Normal (s\<lparr>image_url := img, link := link_or_default lnk\<rparr>)"
  by (cases lnk) (simp_all add: assign_image_def member_def link_or_default_def)

lemma fetchFox_success:
  "ok status \<Longrightarrow>
   fetchFox (fox_response status img lnk) s =
     (case restore_reactions
             ((fetchFox_begin s)\<lparr>image_url := img, link := link_or_default lnk\<rparr>) of
        Normal s1 \<Rightarrow> Some (persist (s1\<lparr>loading := False\<rparr>))
      | Thrown e s1 \<Rightarrow>
          Some (persist (s1\<lparr>error := ''Failed to load fox image.'', loading := False\<rparr>))
      | Untyped \<Rightarrow> None)"
  by (simp add: fetchFox_def fetchFox_resume_def fetchFox_try_def fox_response_def
      JSON_parse_def assign_image_fox)

lemma fetched_key:
  "storageKey ((fetchFox_begin s)\<lparr>image_url := img, link := l\<rparr>) =
     storageKey (s\<lparr>image_url := img\<rparr>) \<and>
   localStorage ((fetchFox_begin s)\<lparr>image_url := img, link := l\<rparr>) = localStorage s"
  by (simp add: storageKey_def fetchFox_begin_def)

lemma member_partial:
  "member (partial_record l d u b) ''likes'' = map_option JNum l"
  "member (partial_record l d u b) ''dislikes'' = map_option JNum d"
  "member (partial_record l d u b) ''userReact'' = map_option JStr u"
  "member (partial_record l d u b) ''saved'' = map_option JBool b"
  by (cases l; cases d; cases u; cases b; simp add: member_def partial_record_def)+

lemma restore_object:
  assumes "localStorage s (storageKey s) = Some (Json_text (JObj kvs))"
  shows "restore_reactions s =
      (case (as_number (nullish (member (JObj kvs) ''likes'') (JNum 0)),
             as_number (nullish (member (JObj kvs) ''dislikes'') (JNum 0)),
             as_string (nullish (member (JObj kvs) ''userReact'') (JStr []))) of
         (Some l, Some d, Some u) \<Rightarrow>
            Normal (s\<lparr>likes := l, dislikes := d, userReact := u,
                      saved := truthy (member (JObj kvs) ''saved'')\<rparr>)
       | _ \<Rightarrow> Untyped)"
  using assms by (simp add: restore_reactions_def JSON_parse_def)

lemma restore_partial:
  assumes "localStorage s (storageKey s) = Some (Json_text (partial_record l d u b))"
  shows "restore_reactions s =
           Normal (s\<lparr>likes := (case l of None \<Rightarrow> 0 | Some n \<Rightarrow> n),
                     dislikes := (case d of None \<Rightarrow> 0 | Some n \<Rightarrow> n),
                     userReact := (case u of None \<Rightarrow> [] | Some x \<Rightarrow> x),
                     saved := (b = Some True)\<rparr>)"
proof -
  obtain kvs where p: "partial_record l d u b = JObj kvs"
    by (simp add: partial_record_def)
  show ?thesis
    using restore_object [of s kvs] assms member_partial [of l d u b] unfolding p
    by (cases l; cases d; cases u; cases b; simp)
qed

lemma toggle_twice_persist: "toggleSave (toggleSave s) = persist s"
proof -
  have "localStorage (toggleSave (toggleSave s)) = localStorage (persist s)"
    by (rule ext)
       (simp add: toggleSave_def persist_def Let_def storageKey_def reaction_record_def
          global_record_def)
  moreover have "toggleSave (toggleSave s) =
      s\<lparr>localStorage := localStorage (toggleSave (toggleSave s))\<rparr>"
    by (simp add: toggleSave_def persist_def Let_def)
  moreover have "persist s = s\<lparr>localStorage := localStorage (persist s)\<rparr>"
    by (simp add: persist_def Let_def)
  ultimately show ?thesis by metis
qed

lemma on_entry_visible: "visible s \<Longrightarrow> on_entry b s = s"
  by (simp add: on_entry_def)

lemma hydrate_visible: "visible (hydrateFromStorage s) = visible s"
  by (simp add: hydrateFromStorage_def
      split: option.splits stored.splits sum.splits json.splits)

lemma visible_activate: "visible (activate s)"
  by (simp add: activate_def disconnect_def fetchFox_begin_def hydrate_visible)

lemma callback_visible: "visible s \<Longrightarrow> intersection_callback es s = s"
  by (induction es) (simp_all add: intersection_callback_def on_entry_visible)

lemma callback_eq:
  "intersection_callback es s = (if \<not> visible s \<and> True \<in> set es then activate s else s)"
proof (induction es arbitrary: s)
  case Nil
  show ?case by (simp add: intersection_callback_def)
next
  case (Cons e es)
  have step: "intersection_callback (e # es) s = intersection_callback es (on_entry e s)"
    by (simp add: intersection_callback_def)
  show ?case
  proof (cases "e \<and> \<not> visible s")
    case True
    then have "intersection_callback es (on_entry e s) = activate s"
      using callback_visible visible_activate by (simp add: on_entry_def)
    with True step show ?thesis by simp
  next
    case False
    then have "on_entry e s = s" by (auto simp: on_entry_def)
    with False step Cons.IH [of s] show ?thesis by auto
  qed
qed

lemma events_eq:
  "intersection_events calls s =
     (if \<not> visible s \<and> True \<in> set (concat calls) then activate s else s)"
proof (induction calls arbitrary: s)
  case Nil
  show ?case by (simp add: intersection_events_def)
next
  case (Cons es calls)
  have step: "intersection_events (es # calls) s =
      intersection_events calls (intersection_callback es s)"
    by (simp add: intersection_events_def)
  show ?case unfolding step Cons.IH callback_eq
    using visible_activate [of s] by auto
qed

lemma assign_image_visible:
  "assign_image data s = Normal s' \<or> assign_image data s = Thrown e s' \<Longrightarrow>
     visible s' = visible s"
  by (auto simp add: assign_image_def split: if_splits option.splits)

lemma restore_reactions_visible:
  "restore_reactions s = Normal s' \<or> restore_reactions s = Thrown e s' \<Longrightarrow>
     visible s' = visible s"
  by (auto simp add: restore_reactions_def
      split: option.splits stored.splits sum.splits json.splits)

lemma fetchFox_try_visible:
  assumes "fetchFox_try r s = Normal s' \<or> fetchFox_try r s = Thrown e s'"
  shows "visible s' = visible s"
proof (cases r)
  case Rejected
  with assms show ?thesis by (simp add: fetchFox_try_def)
next
  case (Resolved status body)
  show ?thesis
  proof (cases "ok status")
    case False
    with Resolved assms show ?thesis by (simp add: fetchFox_try_def)
  next
    case True
    show ?thesis
    proof (cases "JSON_parse body")
      case (Inl err)
      with True Resolved assms show ?thesis by (simp add: fetchFox_try_def)
    next
      case (Inr data)
      show ?thesis
      proof (cases "assign_image data s")
        case (Normal s1)
        then have "visible s1 = visible s" using assign_image_visible by blast
        moreover from Normal Inr True Resolved assms
        have "restore_reactions s1 = Normal s' \<or> restore_reactions s1 = Thrown e s'"
          by (simp add: fetchFox_try_def)
        then have "visible s' = visible s1" by (rule restore_reactions_visible)
        ultimately show ?thesis by simp
      next
        case (Thrown e1 s1)
        then have "visible s1 = visible s" using assign_image_visible by blast
        with Thrown Inr True Resolved assms show ?thesis by (simp add: fetchFox_try_def)
      next
        case Untyped
        with Inr True Resolved assms show ?thesis by (simp add: fetchFox_try_def)
      qed
    qed
  qed
qed

lemma fetchFox_resume_visible:
  assumes "fetchFox_resume r s = Some s'"
  shows "visible s' = visible s"
proof (cases "fetchFox_try r s")
  case (Normal s1)
  with assms have "s' = persist (s1\<lparr>loading := False\<rparr>)"
    by (simp add: fetchFox_resume_def)
  moreover from Normal have "visible s1 = visible s" using fetchFox_try_visible by blast
  ultimately show ?thesis by (simp add: persist_fields)
next
  case (Thrown e s1)
  with assms have "s' = persist (s1\<lparr>error := ''Failed to load fox image.'', loading := False\<rparr>)"
    by (simp add: fetchFox_resume_def)
  moreover from Thrown have "visible s1 = visible s" using fetchFox_try_visible by blast
  ultimately show ?thesis by (simp add: persist_fields)
next
  case Untyped
  with assms show ?thesis by (simp add: fetchFox_resume_def)
qed

text \<open>No event makes a visible component invisible.\<close>

lemma step_visible:
  assumes "step e s = Some s'" and "visible s"
  shows "visible s'"
proof (cases e)
  case Connected
  with assms show ?thesis by (auto simp add: connectedCallback_def)
next
  case Disconnected
  with assms show ?thesis by (auto simp add: disconnectedCallback_def disconnect_def)
next
  case (Intersection entries)
  with assms show ?thesis by (auto simp add: callback_visible)
next
  case (Settled r)
  with assms show ?thesis using fetchFox_resume_visible by auto
next
  case Save_clicked
  with assms show ?thesis by (auto simp add: toggleSave_def persist_fields)
next
  case (React_clicked k)
  with assms show ?thesis by (auto simp add: react_def persist_fields Let_def)
next
  case Refresh_clicked
  with assms show ?thesis by (auto simp add: fetchFox_begin_def)
qed

lemma rises_visible: "visible s \<Longrightarrow> rises (map visible (s # trace es s)) = 0"
proof (induction es arbitrary: s)
  case Nil
  show ?case by simp
next
  case (Cons e es)
  show ?case
  proof (cases "step e s")
    case None
    then show ?thesis by simp
  next
    case (Some s')
    with Cons.prems have "visible s'" using step_visible by blast
    with Cons.IH [of s'] Some Cons.prems show ?thesis by simp
  qed
qed

lemma rises_at_most_once: "rises (map visible (s # trace es s)) \<le> 1"
proof (induction es arbitrary: s)
  case Nil
  show ?case by simp
next
  case (Cons e es)
  show ?case
  proof (cases "step e s")
    case None
    then show ?thesis by simp
  next
    case (Some s')
    show ?thesis
    proof (cases "visible s'")
      case True
      with rises_visible [of s' es] Some show ?thesis by simp
    next
      case False
      with Cons.IH [of s'] Some show ?thesis by simp
    qed
  qed
qed

lemma activate_eq:
  "activate s =
     s\<lparr>visible := True,
       saved := (case localStorage s ''insta-card:global'' of
                   Some (Json_text g) \<Rightarrow>
                     if g = JNull then saved s else truthy (member g ''saved'')
                 | _ \<Rightarrow> saved s),
       loading := True, error := [], requests := requests s + 1,
       io := map_option (\<lambda>_. False) (io s)\<rparr>"
  by (cases s)
     (simp add: activate_def hydrateFromStorage_def disconnect_def fetchFox_begin_def
        JSON_parse_def split: option.splits stored.splits json.splits)

text \<open>
  Hydration reads a malformed global preference as it reads an absent one: the state is
  left as it is.
\<close>

lemma hydrate_malformed_as_absent:
  "localStorage s ''insta-card:global'' = Some Malformed_text \<or>
   localStorage s ''insta-card:global'' = None \<Longrightarrow> hydrateFromStorage s = s"
  by (auto simp add: hydrateFromStorage_def JSON_parse_def)

text \<open>
  The round trip through storage for every image other than \<open>global\<close>: a fetch that
  resolves to the image of a persisted state \<open>s\<close>, in any state \<open>t\<close> over the storage that
  \<open>persist s\<close> left, restores the four persisted fields.
\<close>

lemma roundtrip_other_images:
  assumes "image_url s \<noteq> []" and "image_url s \<noteq> ''global''" and "ok status"
    and "localStorage t = localStorage (persist s)"
  shows "\<exists>t'. fetchFox (fox_response status (image_url s) lnk) t = Some t' \<and>
           likes t' = likes s \<and> dislikes t' = dislikes s \<and>
           userReact t' = userReact s \<and> saved t' = saved s"
proof -
  let ?rec = "partial_record (Some (likes s)) (Some (dislikes s)) (Some (userReact s))
                (Some (saved s))"
  let ?t1 = "(fetchFox_begin t)\<lparr>image_url := image_url s, link := link_or_default lnk\<rparr>"
  have rec: "reaction_record s = ?rec"
    by (simp add: reaction_record_def partial_record_def)
  have "localStorage t (storageKey (t\<lparr>image_url := image_url s\<rparr>)) = Some (Json_text ?rec)"
    using assms(1,2,4)
    by (simp add: persist_def storageKey_def Let_def JSON_stringify_def rec)
  then have "localStorage ?t1 (storageKey ?t1) = Some (Json_text ?rec)"
    by (simp only: fetched_key)
  note restore_partial [OF this]
  then show ?thesis
    using assms(3) by (simp add: fetchFox_success persist_fields)
qed

subsection \<open>The reaction state machine\<close>

text \<open>
  Claim C1, as stated, fails: the counters are doubles, and at \<open>2^53\<close> the increment of
  line 178 leaves the counter as it is. The record stored for image B holds
  \<open>likes = 9007199254740992\<close>; it is restored when B is loaded, and \<open>react(like)\<close> then
  leaves \<open>likes\<close> at that value, where the transition function of the specification gives
  one more.
\<close>

theorem react_increment_counterexample:
  "map_option likes
     (first_load [''insta-card:B'' \<mapsto>
        Json_text (partial_record (Some 9007199254740992) None None None)] ''B'')
     = Some 9007199254740992 \<and>
   map_option likes (map_option (react ''like'')
     (first_load [''insta-card:B'' \<mapsto>
        Json_text (partial_record (Some 9007199254740992) None None None)] ''B''))
     = Some 9007199254740992 \<and>
   map_option likeCount (map_option (spec_react Like) (map_option abstract
     (first_load [''insta-card:B'' \<mapsto>
        Json_text (partial_record (Some 9007199254740992) None None None)] ''B'')))
     = Some 9007199254740993"
  by (simp add: run_defs partial_record_def js_number_2_53_plus_1 abstract_def
      spec_react_def reaction_of_def increment_def counter_def set_counter_def)

text \<open>
  Claim C1, amended. For every state whose two counters are below \<open>2^53\<close> in magnitude,
  and every kind, like or dislike, \<open>react\<close> is the transition function of the
  specification: read as a state of the specification, the state after \<open>react\<close> is the
  one \<open>spec_react\<close> gives (toggle-off: the counter of the kind is decremented, floored at
  0, and the reaction becomes none; otherwise the other counter is decremented, floored
  at 0, if the reaction was the other kind, the counter of the kind is incremented and
  the reaction becomes the kind), and \<open>userReact\<close> holds exactly the name of the
  resulting reaction.
\<close>

theorem react_refines_spec:
  assumes "\<bar>likes s\<bar> < 2 ^ 53" and "\<bar>dislikes s\<bar> < 2 ^ 53"
  shows "abstract (react (kind_name k) s) = spec_react k (abstract s) \<and>
         userReact (react (kind_name k) s) =
           reaction_name (userReaction (spec_react k (abstract s)))"
  using step_exact [OF assms(1)] step_exact [OF assms(2)]
  by (cases k)
     (simp_all add: react_def persist_def abstract_def spec_react_def reaction_of_def
        decrement_def increment_def counter_def set_counter_def Let_def)

theorem react_refines_spec_witness:
  "\<bar>likes (constructor [] Map.empty)\<bar> < 2 ^ 53 \<and>
   \<bar>dislikes (constructor [] Map.empty)\<bar> < 2 ^ 53 \<and>
   abstract (react (kind_name Like) (constructor [] Map.empty)) =
     \<lparr>likeCount = 1, dislikeCount = 0, userReaction = Some Like\<rparr> \<and>
   userReact (react (kind_name Like) (constructor [] Map.empty)) = ''like''"
proof -
  let ?s = "constructor [] Map.empty"
  have h1: "\<bar>likes ?s\<bar> < 2 ^ 53" by (simp add: constructor_def)
  have h2: "\<bar>dislikes ?s\<bar> < 2 ^ 53" by (simp add: constructor_def)
  show ?thesis
    using h1 h2 react_refines_spec [OF h1 h2, of Like]
    by (simp add: constructor_def abstract_def spec_react_def reaction_of_def
        increment_def counter_def set_counter_def)
qed

text \<open>
  Claim C2. From a state with non-negative counters, after each call of a sequence of
  \<open>react(like)\<close> and \<open>react(dislike)\<close> calls (after the first \<open>n\<close> calls, for every
  \<open>n\<close> from 1 to the length of the sequence) both counters are non-negative and
  \<open>userReact\<close> names the most recent reaction that has not been toggled off, or is the
  empty string when there is none.
\<close>

theorem reacts_counters_and_standing:
  assumes "0 \<le> likes s" and "0 \<le> dislikes s" and "0 < n" and "n \<le> length ks"
  shows "0 \<le> likes (reacts (take n ks) s) \<and> 0 \<le> dislikes (reacts (take n ks) s) \<and>
         userReact (reacts (take n ks) s) =
           reaction_name (standing (reaction_of (userReact s)) (take n ks))"
proof -
  from assms(3,4) have "take n ks \<noteq> []" by auto
  then show ?thesis
    using reacts_nonneg [OF assms(1,2)] userReact_reacts by blast
qed

theorem reacts_counters_and_standing_witness:
  "0 \<le> likes (constructor [] Map.empty) \<and> 0 \<le> dislikes (constructor [] Map.empty) \<and>
   (0::nat) < 3 \<and> (3::nat) \<le> length [Like, Dislike, Dislike] \<and>
   0 \<le> likes (reacts (take 3 [Like, Dislike, Dislike]) (constructor [] Map.empty)) \<and>
   0 \<le> dislikes (reacts (take 3 [Like, Dislike, Dislike]) (constructor [] Map.empty)) \<and>
   userReact (reacts (take 3 [Like, Dislike, Dislike]) (constructor [] Map.empty)) = []"
  using reacts_counters_and_standing
          [of "constructor [] Map.empty" 3 "[Like, Dislike, Dislike]"]
  by (simp add: constructor_def standing_def reaction_of_def)

subsection \<open>Fetching and reconciling\<close>

text \<open>
  Claim C3. A stored value that is present but malformed should be read as an absent one.
  Hydration does so (\<open>hydrate_malformed_as_absent\<close>). Reconciliation does not: a component
  loads image A, the user likes it and asks for a new image, which is B. When the record
  stored for B is malformed the run ends with the failure message, and with the counter
  and the reaction of image A kept; when no record is stored for B it ends with no
  message and with the counters reset.
\<close>

theorem reconcile_malformed_differs_from_absent:
  "map_option (\<lambda>s. (image_url s, error s, likes s, userReact s))
     (like_then_refresh [''insta-card:B'' \<mapsto> Malformed_text] ''A'' ''B'')
     = Some (''B'', ''Failed to load fox image.'', 1, ''like'') \<and>
   map_option (\<lambda>s. (image_url s, error s, likes s, userReact s))
     (like_then_refresh Map.empty ''A'' ''B'')
     = Some (''B'', [], 0, [])"
  by (simp add: run_defs)

text \<open>
  Claim C4, as stated, fails: the stored record \<open>{"userReact": "like"}\<close>, whose numeric
  fields are missing, is restored as the reaction like with the like counter 0.
\<close>

theorem reconcile_invariant_counterexample:
  "map_option userReact
     (first_load [''insta-card:B'' \<mapsto> Json_text (partial_record None None (Some ''like'') None)]
        ''B'') = Some ''like'' \<and>
   map_option likes
     (first_load [''insta-card:B'' \<mapsto> Json_text (partial_record None None (Some ''like'') None)]
        ''B'') = Some 0 \<and>
   map_option reaction_invariant
     (first_load [''insta-card:B'' \<mapsto> Json_text (partial_record None None (Some ''like'') None)]
        ''B'') = Some False"
  by (simp add: run_defs partial_record_def reaction_invariant_def)

text \<open>
  Claim C4, amended. A successful fetch whose image has a stored record, well formed or
  partially missing, restores the record as it is, whatever the record: the counters are
  the stored ones (0 when missing), the reaction is the stored one (none when missing).
  So after the reconciliation the reaction like implies a like counter of at least 1, and
  the reaction dislike a dislike counter of at least 1, exactly when the stored record,
  with the defaults applied, satisfies these two implications.
\<close>

theorem reconcile_restores_record:
  assumes "ok status"
    and "localStorage s (storageKey (s\<lparr>image_url := img\<rparr>)) =
           Some (Json_text (partial_record l d u b))"
  shows "\<exists>s'. fetchFox (fox_response status img lnk) s = Some s' \<and>
           likes s' = (case l of None \<Rightarrow> 0 | Some n \<Rightarrow> n) \<and>
           dislikes s' = (case d of None \<Rightarrow> 0 | Some n \<Rightarrow> n) \<and>
           userReact s' = (case u of None \<Rightarrow> [] | Some x \<Rightarrow> x) \<and>
           saved s' = (b = Some True) \<and>
           reaction_invariant s' =
             ((u = Some ''like'' \<longrightarrow> 1 \<le> (case l of None \<Rightarrow> 0 | Some n \<Rightarrow> n)) \<and>
              (u = Some ''dislike'' \<longrightarrow> 1 \<le> (case d of None \<Rightarrow> 0 | Some n \<Rightarrow> n)))"
proof -
  let ?s1 = "(fetchFox_begin s)\<lparr>image_url := img, link := link_or_default lnk\<rparr>"
  have "localStorage ?s1 (storageKey ?s1) = Some (Json_text (partial_record l d u b))"
    using assms(2) by (simp only: fetched_key)
  note restore_partial [OF this]
  then show ?thesis
    using assms(1)
    by (cases u) (simp_all add: fetchFox_success persist_fields reaction_invariant_def)
qed

theorem reconcile_restores_record_witness:
  "ok 200 \<and>
   localStorage
     (constructor [] [''insta-card:B'' \<mapsto>
        Json_text (partial_record (Some 3) (Some 1) (Some ''like'') (Some True))])
     (storageKey
        ((constructor [] [''insta-card:B'' \<mapsto>
            Json_text (partial_record (Some 3) (Some 1) (Some ''like'') (Some True))])
         \<lparr>image_url := ''B''\<rparr>))
     = Some (Json_text (partial_record (Some 3) (Some 1) (Some ''like'') (Some True))) \<and>
   (\<exists>s'. fetchFox (fox_response 200 ''B'' None)
            (constructor [] [''insta-card:B'' \<mapsto>
               Json_text (partial_record (Some 3) (Some 1) (Some ''like'') (Some True))])
          = Some s' \<and>
        likes s' = 3 \<and> dislikes s' = 1 \<and> userReact s' = ''like'' \<and> saved s' = True \<and>
        reaction_invariant s')"
proof -
  let ?s = "constructor [] [''insta-card:B'' \<mapsto>
              Json_text (partial_record (Some 3) (Some 1) (Some ''like'') (Some True))]"
  have h1: "ok 200" by (simp add: ok_def)
  have h2: "localStorage ?s (storageKey (?s\<lparr>image_url := ''B''\<rparr>)) =
      Some (Json_text (partial_record (Some 3) (Some 1) (Some ''like'') (Some True)))"
    by (simp add: constructor_def storageKey_def)
  show ?thesis
    using h1 h2 reconcile_restores_record [OF h1 h2, of None] by simp
qed

text \<open>
  Claim C5. A fetch that ends in a transport failure or in a status outside 200--299
  terminates with \<open>loading\<close> false and the fixed failure message, and leaves the image,
  the link, the two counters, the reaction and \<open>saved\<close> as they were before the call.
\<close>

theorem fetch_failure_keeps_image:
  assumes "failed r"
  shows "\<exists>s'. fetchFox r s = Some s' \<and> loading s' = False \<and>
           error s' = ''Failed to load fox image.'' \<and> image_url s' = image_url s \<and>
           link s' = link s \<and> likes s' = likes s \<and> dislikes s' = dislikes s \<and>
           userReact s' = userReact s \<and> saved s' = saved s"
  using assms
  by (cases r)
     (simp_all add: failed_def fetchFox_def fetchFox_resume_def fetchFox_try_def
        fetchFox_begin_def persist_fields)

theorem fetch_failure_keeps_image_witness:
  "failed (Resolved 500 Empty_text) \<and>
   (\<exists>s'. fetchFox (Resolved 500 Empty_text) (constructor [] Map.empty) = Some s' \<and>
        loading s' = False \<and> error s' = ''Failed to load fox image.'' \<and>
        image_url s' = [] \<and> link s' = [] \<and> likes s' = 0 \<and> dislikes s' = 0 \<and>
        userReact s' = [] \<and> saved s' = False)"
proof -
  have h: "failed (Resolved 500 Empty_text)" by (simp add: failed_def ok_def)
  show ?thesis
    using h fetch_failure_keeps_image [OF h, of "constructor [] Map.empty"]
    by (simp add: constructor_def)
qed

text \<open>
  Claim C6. Persisting the reactions of an image and then reconciling a fetch of the same
  image should restore them. It does for every image but one (\<open>roundtrip_other_images\<close>):
  for the image \<open>global\<close> the key of the reaction record is the key of the global
  preference, which \<open>_persist\<close> writes last. A component loads the image \<open>global\<close>, the
  user likes it, and the next fetch resolves to \<open>global\<close> again: the like is lost, where
  for the image \<open>A\<close> it is restored.
\<close>

theorem roundtrip_global_key_collision:
  "map_option (\<lambda>s. (image_url s, likes s, userReact s))
     (like_then_refresh Map.empty ''global'' ''global'') = Some (''global'', 0, []) \<and>
   map_option (\<lambda>s. (image_url s, likes s, userReact s))
     (like_then_refresh Map.empty ''A'' ''A'') = Some (''A'', 1, ''like'')"
  by (simp add: run_defs)

text \<open>
  Claim C8. A successful fetch whose image has no stored reaction record sets both
  counters to 0 and the reaction to none, and keeps \<open>saved\<close>.
\<close>

theorem fetch_without_record_resets:
  assumes "ok status"
    and "localStorage s (storageKey (s\<lparr>image_url := img\<rparr>)) = None"
  shows "\<exists>s'. fetchFox (fox_response status img lnk) s = Some s' \<and>
           likes s' = 0 \<and> dislikes s' = 0 \<and> userReact s' = [] \<and> saved s' = saved s \<and>
           image_url s' = img \<and> error s' = [] \<and> loading s' = False"
proof -
  let ?s1 = "(fetchFox_begin s)\<lparr>image_url := img, link := link_or_default lnk\<rparr>"
  have "localStorage ?s1 (storageKey ?s1) = None"
    using assms(2) by (simp only: fetched_key)
  then have "restore_reactions ?s1 = Normal (?s1\<lparr>likes := 0, dislikes := 0, userReact := []\<rparr>)"
    by (simp add: restore_reactions_def)
  then show ?thesis
    using assms(1) by (simp add: fetchFox_success fetchFox_begin_def persist_fields)
qed

theorem fetch_without_record_resets_witness:
  "ok 200 \<and>
   localStorage ((constructor [] Map.empty)\<lparr>saved := True, likes := 2, userReact := ''like''\<rparr>)
     (storageKey ((constructor [] Map.empty)
        \<lparr>saved := True, likes := 2, userReact := ''like'', image_url := ''A''\<rparr>)) = None \<and>
   (\<exists>s'. fetchFox (fox_response 200 ''A'' None)
            ((constructor [] Map.empty)\<lparr>saved := True, likes := 2, userReact := ''like''\<rparr>)
          = Some s' \<and>
        likes s' = 0 \<and> dislikes s' = 0 \<and> userReact s' = [] \<and> saved s' = True \<and>
        image_url s' = ''A'' \<and> error s' = [] \<and> loading s' = False)"
proof -
  let ?s = "(constructor [] Map.empty)\<lparr>saved := True, likes := 2, userReact := ''like''\<rparr>"
  have h1: "ok 200" by (simp add: ok_def)
  have h2: "localStorage ?s (storageKey (?s\<lparr>image_url := ''A''\<rparr>)) = None"
    by (simp add: constructor_def)
  show ?thesis
    using h1 h2 fetch_without_record_resets [OF h1 h2, of None]
    by (simp add: constructor_def)
qed

subsection \<open>Saving\<close>

text \<open>
  Claim C7, as stated, fails: a component that has come into view over an empty storage
  has no global preference record, and has one after two calls of \<open>toggleSave\<close>.
\<close>

theorem toggleSave_twice_counterexample:
  "localStorage
     (intersection_callback [True] (connectedCallback (constructor [] Map.empty)))
     ''insta-card:global'' = None \<and>
   localStorage
     (toggleSave (toggleSave
        (intersection_callback [True] (connectedCallback (constructor [] Map.empty)))))
     ''insta-card:global'' = Some (Json_text (JObj [(''saved'', JBool False)]))"
  by (simp add: run_defs toggleSave_def)

text \<open>
  Claim C7, amended. Calling \<open>toggleSave\<close> twice returns \<open>saved\<close> to its original value
  and leaves the global preference record equal to the record of that original value;
  this is the record that was there before the two calls whenever the state had been
  persisted, that is, whenever the stored global record was the one of \<open>saved\<close>.
\<close>

theorem toggleSave_twice:
  "saved (toggleSave (toggleSave s)) = saved s \<and>
   localStorage (toggleSave (toggleSave s)) ''insta-card:global'' =
     Some (JSON_stringify (global_record s)) \<and>
   (localStorage s ''insta-card:global'' = Some (JSON_stringify (global_record s)) \<longrightarrow>
      localStorage (toggleSave (toggleSave s)) ''insta-card:global'' =
        localStorage s ''insta-card:global'')"
  by (simp add: toggle_twice_persist persist_fields) (simp add: persist_def Let_def)

theorem toggleSave_twice_witness:
  "localStorage (persist (constructor [] Map.empty)) ''insta-card:global'' =
     Some (JSON_stringify (global_record (persist (constructor [] Map.empty)))) \<and>
   saved (toggleSave (toggleSave (persist (constructor [] Map.empty)))) = False \<and>
   localStorage (toggleSave (toggleSave (persist (constructor [] Map.empty))))
       ''insta-card:global'' =
     localStorage (persist (constructor [] Map.empty)) ''insta-card:global''"
proof -
  let ?s = "persist (constructor [] Map.empty)"
  have h: "localStorage ?s ''insta-card:global'' = Some (JSON_stringify (global_record ?s))"
    by (simp add: persist_def constructor_def global_record_def Let_def)
  have v: "saved ?s = False" by (simp add: persist_fields constructor_def)
  show ?thesis
    using h v toggleSave_twice [of ?s] by simp
qed

subsection \<open>The visibility gate\<close>

text \<open>
  Claim C9. Of every sequence of calls of the observer's callback, only the first
  intersecting entry has an effect: the state after the sequence is the state before it,
  activated once when the component was not visible and some entry intersects, and
  unchanged otherwise. The activation sets \<open>visible\<close>; hydrates, that is, sets \<open>saved\<close>
  from the global preference when one is stored and parses to a value other than
  \<open>null\<close>; starts one fetch (\<open>loading\<close> set, the message cleared, one more request); leaves
  the observer disconnected; and changes nothing else. After it every sequence of calls
  changes nothing, and so does a call of the callback in any visible state. Over the
  whole lifetime, whatever events follow the construction and in whatever order
  (lifecycle callbacks, calls of the observer's callback, settled fetches, clicks on
  save, like, dislike and refresh), \<open>visible\<close> goes from false to true at most once.
\<close>

theorem first_intersection_only:
  "intersection_events calls s =
     (if \<not> visible s \<and> True \<in> set (concat calls) then activate s else s) \<and>
   activate s =
     s\<lparr>visible := True,
       saved := (case localStorage s ''insta-card:global'' of
                   Some (Json_text g) \<Rightarrow>
                     if g = JNull then saved s else truthy (member g ''saved'')
                 | _ \<Rightarrow> saved s),
       loading := True, error := [], requests := requests s + 1,
       io := map_option (\<lambda>_. False) (io s)\<rparr> \<and>
   visible (activate s) \<and> io (activate s) \<noteq> Some True \<and>
   intersection_events later (activate s) = activate s \<and>
   step (Intersection entries) (s\<lparr>visible := True\<rparr>) = Some (s\<lparr>visible := True\<rparr>) \<and>
   rises (map visible (s # trace evs s)) \<le> 1"
proof -
  have "io (activate s) \<noteq> Some True"
    by (cases "io s") (simp_all add: activate_eq)
  moreover have "intersection_events later (activate s) = activate s"
    by (simp add: events_eq visible_activate)
  moreover have "step (Intersection entries) (s\<lparr>visible := True\<rparr>) = Some (s\<lparr>visible := True\<rparr>)"
    by (simp add: callback_visible)
  ultimately show ?thesis
    using activate_eq [of s] rises_at_most_once [of s evs]
    by (simp add: events_eq visible_activate)
qed

subsection \<open>Frame properties\<close>

text \<open>
  Claim C10. \<open>toggleSave\<close> changes no property of the component other than \<open>saved\<close>, and
  \<open>react\<close>, for like and for dislike, none other than the two counters and the reaction
  (in particular not \<open>saved\<close> and not the image); both write to the storage.
\<close>

theorem toggleSave_react_frame:
  "toggleSave s = s\<lparr>saved := \<not> saved s, localStorage := localStorage (toggleSave s)\<rparr> \<and>
   likes (toggleSave s) = likes s \<and> dislikes (toggleSave s) = dislikes s \<and>
   userReact (toggleSave s) = userReact s \<and> image_url (toggleSave s) = image_url s \<and>
   link (toggleSave s) = link s \<and> loading (toggleSave s) = loading s \<and>
   error (toggleSave s) = error s \<and> visible (toggleSave s) = visible s \<and>
   react (kind_name k) s =
     s\<lparr>likes := likes (react (kind_name k) s), dislikes := dislikes (react (kind_name k) s),
       userReact := userReact (react (kind_name k) s),
       localStorage := localStorage (react (kind_name k) s)\<rparr> \<and>
   saved (react (kind_name k) s) = saved s \<and>
   image_url (react (kind_name k) s) = image_url s \<and>
   link (react (kind_name k) s) = link s \<and> loading (react (kind_name k) s) = loading s \<and>
   error (react (kind_name k) s) = error s \<and> visible (react (kind_name k) s) = visible s"
  by (simp add: toggleSave_def react_def persist_def Let_def)

end
